theory Spec2Isabelle
  imports Complex_Main "HOL-Library.AList"
begin

section \<open>Circadian Hue switch: data model\<close>

text \<open>
  The embedded module is \<^verbatim>\<open>custom_components/circadian_hue/switch.py\<close>.
  Python dictionaries whose iteration order the code relies on are association lists;
  a missing key, a missing attribute and a failed conversion are values of \<open>error\<close>.
  Python floats (the sensor percentage, the xy coordinates, the tolerance 0.02) are
  modelled as real numbers: rounding of the IEEE arithmetic is not represented.
\<close>

type_synonym light_id = string
type_synonym scene_id = string
type_synonym xy_color = "real \<times> real"

datatype error = AttributeError | KeyError | ValueError | RequestError

text \<open>
  The \<^verbatim>\<open>state\<close> dictionary of a light, and one entry of a scene's
  \<^verbatim>\<open>lightstates\<close>: the keys \<^verbatim>\<open>on\<close>, \<^verbatim>\<open>bri\<close> and
  \<^verbatim>\<open>xy\<close>, each of which may be absent (\<open>None\<close>). The value of
  \<^verbatim>\<open>xy\<close> is the two-element list \<^verbatim>\<open>[x, y]\<close>.
\<close>

record light_state =
  on :: "bool option"
  bri :: "int option"
  xy :: "xy_color option"

text \<open>A light object of the bridge client: \<^verbatim>\<open>light.id\<close> and \<^verbatim>\<open>light.state\<close>.\<close>

record light =
  lid :: light_id
  state :: light_state

text \<open>A scene object of the bridge client: \<^verbatim>\<open>scene.name\<close> and \<^verbatim>\<open>scene.lights\<close>.\<close>

record scene =
  name :: string
  lights :: "light_id list"


text \<open>
  The entity \<^verbatim>\<open>sensor.circadian_values\<close> of the host: its attribute
  \<^verbatim>\<open>xy_color\<close> (\<open>None\<close> when the key is absent) and the result of
  \<^verbatim>\<open>float(state)\<close> (\<open>None\<close> when the conversion raises).
\<close>

record circadian_values =
  attr_xy_color :: "xy_color option"
  percent_value :: "real option"

text \<open>JSON values placed in a light patch.\<close>

datatype pyval = PBool bool | PInt int | PXY xy_color

type_synonym patch = "(string \<times> pyval) list"

section \<open>Desired light state: \<^verbatim>\<open>get_lightstate\<close>\<close>

text \<open>Lines 116 to 119: the local variable \<^verbatim>\<open>brightness\<close>.\<close>

definition brightness_of :: "real \<Rightarrow> real" where
  "brightness_of percent =
     (if percent > 0 then 255 else 255 * ((100 + percent) / 100))"

text \<open>Python's \<^verbatim>\<open>int(x)\<close> on a float: truncation towards zero.\<close>

definition py_int :: "real \<Rightarrow> int" where
  "py_int x = (if x \<ge> 0 then \<lfloor>x\<rfloor> else \<lceil>x\<rceil>)"

text \<open>
  The dictionary comprehension of lines 123 to 130: the four candidate entries in
  order, those whose value is \<^verbatim>\<open>None\<close> dropped.
\<close>

fun not_none :: "(string \<times> pyval option) list \<Rightarrow> patch" where
  "not_none [] = []"
| "not_none ((key, None) # rest) = not_none rest"
| "not_none ((key, Some v) # rest) = (key, v) # not_none rest"

definition light_patch :: "xy_color \<Rightarrow> real \<Rightarrow> bool \<Rightarrow> light \<Rightarrow> patch" where
  "light_patch xy_c brightness set_brightness l =
     not_none
       [(''on'', Some (PBool True)),
        (''xy'', if xy (state l) \<noteq> None then Some (PXY xy_c) else None),
        (''bri'', if set_brightness then Some (PInt (py_int brightness)) else None),
        (''transitiontime'', Some (PInt 20))]"

text \<open>
  The loop of lines 121 to 131: \<^verbatim>\<open>out[light.id] = data\<close>. Assigning to a key
  that is already present replaces its value in place, a new key goes to the end.
\<close>

fun fill_out :: "xy_color \<Rightarrow> real \<Rightarrow> bool \<Rightarrow> light list \<Rightarrow>
    (light_id \<times> patch) list \<Rightarrow> (light_id \<times> patch) list" where
  "fill_out xy_c brightness set_brightness [] out = out"
| "fill_out xy_c brightness set_brightness (l # rest) out =
     fill_out xy_c brightness set_brightness rest
       (AList.update (lid l) (light_patch xy_c brightness set_brightness l) out)"

text \<open>
  \<^verbatim>\<open>get_lightstate(self, lights, set_brightness=True)\<close>. The first argument is
  what \<^verbatim>\<open>self.hass.states.get('sensor.circadian_values')\<close> returns
  (\<open>None\<close> when the entity does not exist).
\<close>

definition get_lightstate :: "circadian_values option \<Rightarrow> light list \<Rightarrow> bool \<Rightarrow>
    error + (light_id \<times> patch) list" where
  "get_lightstate sensor ls set_brightness =
     (case sensor of
        None \<Rightarrow> Inl AttributeError
      | Some s \<Rightarrow>
          (case attr_xy_color s of
             None \<Rightarrow> Inl KeyError
           | Some xy_c \<Rightarrow>
               (case percent_value s of
                  None \<Rightarrow> Inl ValueError
                | Some percent \<Rightarrow>
                    Inr (fill_out xy_c (brightness_of percent) set_brightness ls []))))"

section \<open>Scene discovery and cache refresh\<close>


text \<open>
  What \<^verbatim>\<open>await api.update()\<close> does under the ten-second timeout: it
  replaces the cache, raises \<^verbatim>\<open>asyncio.TimeoutError\<close>, raises
  \<^verbatim>\<open>aiohue.AiohueException\<close>, or raises something else.
\<close>

datatype 'a update_outcome =
  Updated 'a | TimeoutError | AiohueException | OtherException

text \<open>
  Lines 41 to 50: \<^verbatim>\<open>update_api(api)\<close>. The result is the returned boolean
  with the cache as it stands afterwards; the two exceptions named in the
  \<^verbatim>\<open>except\<close> clause become \<^verbatim>\<open>False\<close>, any other propagates.
\<close>

definition update_api :: "'a \<Rightarrow> 'a update_outcome \<Rightarrow> error + (bool \<times> 'a)" where
  "update_api cache outcome =
     (case outcome of
        Updated fresh \<Rightarrow> Inr (True, fresh)
      | TimeoutError \<Rightarrow> Inr (False, cache)
      | AiohueException \<Rightarrow> Inr (False, cache)
      | OtherException \<Rightarrow> Inl RequestError)"

section \<open>The bridge and the calls made to it\<close>

text \<open>
  The reply to \<^verbatim>\<open>request("get", "scenes/<id>")\<close>: the call raises, or it
  returns a dictionary whose key \<^verbatim>\<open>lightstates\<close> is present or absent.
\<close>

datatype get_reply =
  GetRaised | GetReply "(light_id \<times> light_state) list option"

text \<open>
  A bridge as \<^verbatim>\<open>update_bridge\<close> meets it: the two caches of
  \<^verbatim>\<open>bridge.api\<close> before the cycle, and how the bridge answers during the
  cycle (the outcome of each refresh, the reply to each scene request, whether a
  \<^verbatim>\<open>put\<close> or a \<^verbatim>\<open>set_state\<close> raises).
\<close>

record bridge =
  api_scenes :: "(scene_id \<times> scene) list"
  api_lights :: "(light_id \<times> light) list"
  scenes_outcome :: "(scene_id \<times> scene) list update_outcome"
  lights_outcome :: "(light_id \<times> light) list update_outcome"
  request_get :: "scene_id \<Rightarrow> get_reply"
  put_raises :: "scene_id \<Rightarrow> bool"
  set_state_raises :: "light_id \<Rightarrow> bool"

text \<open>Every network call the module issues to a bridge.\<close>

datatype call =
  RefreshScenes
| RefreshLights
| GetScene scene_id
| PutScene scene_id "(light_id \<times> patch) list"
| SetState light_id patch

section \<open>Comparing a scene with the live lights\<close>

text \<open>
  The body of the loop of lines 162 to 171 for one entry of
  \<^verbatim>\<open>lightstates\<close>: \<open>current_state\<close> is the live state of the light,
  \<open>st\<close> the stored one, and the pair holds \<^verbatim>\<open>is_current_scene\<close> and
  \<^verbatim>\<open>brightness_changed\<close>. Reading an absent key raises
  \<^verbatim>\<open>KeyError\<close>. Both live coordinates are compared with the stored
  x coordinate (\<^verbatim>\<open>state['xy'][0]\<close>), as the source has it.
\<close>

definition compare_light :: "light_state \<Rightarrow> light_state \<Rightarrow> bool \<times> bool \<Rightarrow>
    error + (bool \<times> bool)" where
  "compare_light current_state st flags =
     (case (on current_state, on st) of
        (Some c_on, Some s_on) \<Rightarrow>
          (let is_current_scene = (if c_on \<noteq> s_on then False else fst flags) in
           case (bri current_state, bri st) of
             (Some c_bri, Some s_bri) \<Rightarrow>
               (let brightness_changed =
                      (if \<bar>c_bri - s_bri\<bar> > 5 then True else snd flags) in
                case xy current_state of
                  None \<Rightarrow> Inr (is_current_scene, brightness_changed)
                | Some (c_x, c_y) \<Rightarrow>
                    (case xy st of
                       None \<Rightarrow> Inl KeyError
                     | Some (s_x, s_y) \<Rightarrow>
                         Inr (if \<bar>c_x - s_x\<bar> > 0.02 \<or> \<bar>c_y - s_x\<bar> > 0.02
                              then False else is_current_scene,
                              brightness_changed)))
           | _ \<Rightarrow> Inl KeyError)
      | _ \<Rightarrow> Inl KeyError)"

text \<open>
  The loop itself; \<^verbatim>\<open>bridge.api.lights[light_id]\<close> raises
  \<^verbatim>\<open>KeyError\<close> for an identifier the light cache does not hold.
\<close>

fun compare_lights :: "(light_id \<times> light) list \<Rightarrow> (light_id \<times> light_state) list \<Rightarrow>
    bool \<times> bool \<Rightarrow> error + (bool \<times> bool)" where
  "compare_lights cache [] flags = Inr flags"
| "compare_lights cache ((light_id, st) # rest) flags =
     (case map_of cache light_id of
        None \<Rightarrow> Inl KeyError
      | Some l \<Rightarrow>
          (case compare_light (state l) st flags of
             Inl e \<Rightarrow> Inl e
           | Inr flags' \<Rightarrow> compare_lights cache rest flags'))"

text \<open>
  The three tests of the loop as predicates on one light, and the two verdicts on a
  whole scene they add up to. A light the cache does not hold, or a missing field,
  counts as a mismatch here; the loop raises on those.
\<close>

definition on_matches :: "light_state \<Rightarrow> light_state \<Rightarrow> bool" where
  "on_matches current_state st \<longleftrightarrow>
     (case (on current_state, on st) of
        (Some c_on, Some s_on) \<Rightarrow> c_on = s_on
      | _ \<Rightarrow> False)"

definition bri_diverges :: "light_state \<Rightarrow> light_state \<Rightarrow> bool" where
  "bri_diverges current_state st \<longleftrightarrow>
     (case (bri current_state, bri st) of
        (Some c_bri, Some s_bri) \<Rightarrow> \<bar>c_bri - s_bri\<bar> > 5
      | _ \<Rightarrow> False)"

definition xy_diverges :: "light_state \<Rightarrow> light_state \<Rightarrow> bool" where
  "xy_diverges current_state st \<longleftrightarrow>
     (case (xy current_state, xy st) of
        (Some (c_x, c_y), Some (s_x, s_y)) \<Rightarrow>
          \<bar>c_x - s_x\<bar> > 0.02 \<or> \<bar>c_y - s_x\<bar> > 0.02
      | _ \<Rightarrow> False)"

definition live_state :: "(light_id \<times> light) list \<Rightarrow> light_id \<Rightarrow> light_state" where
  "live_state cache light_id =
     (case map_of cache light_id of
        None \<Rightarrow> \<lparr>on = None, bri = None, xy = None\<rparr>
      | Some l \<Rightarrow> state l)"

definition scene_active :: "(light_id \<times> light) list \<Rightarrow> (light_id \<times> light_state) list \<Rightarrow>
    bool" where
  "scene_active cache lightstates \<longleftrightarrow>
     list_all (\<lambda>(light_id, st).
        on_matches (live_state cache light_id) st \<and>
        \<not> xy_diverges (live_state cache light_id) st) lightstates"

definition manual_brightness :: "(light_id \<times> light) list \<Rightarrow>
    (light_id \<times> light_state) list \<Rightarrow> bool" where
  "manual_brightness cache lightstates \<longleftrightarrow>
     list_ex (\<lambda>(light_id, st). bri_diverges (live_state cache light_id) st) lightstates"

text \<open>
  The bridge data on which the loop raises nothing: every light of the scene is in
  the cache, both sides carry \<^verbatim>\<open>on\<close> and \<^verbatim>\<open>bri\<close>, and the stored
  state carries \<^verbatim>\<open>xy\<close> wherever the live one does.
\<close>

definition comparable :: "(light_id \<times> light) list \<Rightarrow> (light_id \<times> light_state) list \<Rightarrow>
    bool" where
  "comparable cache lightstates \<longleftrightarrow>
     list_all (\<lambda>(light_id, st).
        (case map_of cache light_id of
           None \<Rightarrow> False
         | Some l \<Rightarrow>
             on (state l) \<noteq> None \<and> on st \<noteq> None \<and>
             bri (state l) \<noteq> None \<and> bri st \<noteq> None \<and>
             (xy (state l) = None \<or> xy st \<noteq> None))) lightstates"

section \<open>The switch entity\<close>

text \<open>
  The fields of \<^verbatim>\<open>CircadianHueSwitch\<close> the claims are about:
  \<^verbatim>\<open>self._name\<close>, \<^verbatim>\<open>self._state\<close> (\<^verbatim>\<open>None\<close>,
  \<^verbatim>\<open>True\<close> or \<^verbatim>\<open>False\<close>) and whether \<^verbatim>\<open>self.lock\<close> is held.
\<close>

record switch =
  sw_name :: string
  sw_state :: "bool option"
  lock :: bool

text \<open>\<^verbatim>\<open>homeassistant.const.STATE_ON\<close>.\<close>

definition STATE_ON :: string where
  "STATE_ON = ''on''"

text \<open>The property \<^verbatim>\<open>is_on\<close> returns \<^verbatim>\<open>self._state\<close> as it is.\<close>

definition is_on :: "switch \<Rightarrow> bool option" where
  "is_on self = sw_state self"

text \<open>Python's truth value of what \<^verbatim>\<open>is_on\<close> returns.\<close>

definition truthy :: "bool option \<Rightarrow> bool" where
  "truthy v \<longleftrightarrow> v = Some True"

definition turn_on :: "switch \<Rightarrow> switch" where
  "turn_on self = self\<lparr>sw_state := Some True\<rparr>"

text \<open>
  Lines 134 to 142: \<^verbatim>\<open>async_added_to_hass\<close>. The second argument is what
  \<^verbatim>\<open>async_get_last_state()\<close> returns: \<^verbatim>\<open>None\<close>, or a state object
  whose \<^verbatim>\<open>state\<close> string is given. In
  \<^verbatim>\<open>state and state.state == STATE_ON\<close> a \<^verbatim>\<open>None\<close> on the left
  is the value of the whole expression.
\<close>

definition async_added_to_hass :: "switch \<Rightarrow> string option \<Rightarrow> switch" where
  "async_added_to_hass self last_state =
     (if sw_state self \<noteq> None then self
      else self\<lparr>sw_state :=
             (case last_state of
                None \<Rightarrow> None
              | Some s \<Rightarrow> Some (s = STATE_ON))\<rparr>)"

section \<open>Per-bridge update: \<^verbatim>\<open>update_bridge\<close>\<close>

text \<open>
  Line 172: the light objects of the scene, looked up in the light cache;
  \<^verbatim>\<open>KeyError\<close> at the first identifier the cache does not hold.
\<close>

fun scene_lights :: "(light_id \<times> light) list \<Rightarrow> light_id list \<Rightarrow> error + light list" where
  "scene_lights cache [] = Inr []"
| "scene_lights cache (i # rest) =
     (case map_of cache i of
        None \<Rightarrow> Inl KeyError
      | Some l \<Rightarrow>
          (case scene_lights cache rest of
             Inl e \<Rightarrow> Inl e
           | Inr ls \<Rightarrow> Inr (l # ls)))"

text \<open>
  Line 188. The list comprehension looks every key of the computed state up in the
  light cache before any call is awaited, so a missing key raises with no call
  issued. \<^verbatim>\<open>asyncio.gather\<close> then starts every \<^verbatim>\<open>set_state\<close> call;
  when one of them raises, the exception reaches the caller.
\<close>

definition push_lights :: "bridge \<Rightarrow> (light_id \<times> light) list \<Rightarrow> (light_id \<times> patch) list \<Rightarrow>
    call list \<times> (error + unit)" where
  "push_lights b cache st =
     (if list_ex (\<lambda>(i, light_state). map_of cache i = None) st then ([], Inl KeyError)
      else (map (\<lambda>(i, light_state). SetState i light_state) st,
            if list_ex (\<lambda>(i, light_state). set_state_raises b i) st
            then Inl RequestError else Inr ()))"

text \<open>
  Lines 157 to 188, the body of the scene loop for one scene named
  \<^verbatim>\<open>Circadian\<close>: the calls issued, in order, and whether an exception
  ended the body. \<open>sensor\<close> is the color source as the host holds it during the
  cycle, \<open>cache\<close> the light cache after its refresh.
\<close>

definition process_scene :: "circadian_values option \<Rightarrow> bridge \<Rightarrow> (light_id \<times> light) list \<Rightarrow>
    scene_id \<Rightarrow> scene \<Rightarrow> call list \<times> (error + unit)" where
  "process_scene sensor b cache sid sc =
     (case request_get b sid of
        GetRaised \<Rightarrow> ([GetScene sid], Inl RequestError)
      | GetReply None \<Rightarrow> ([GetScene sid], Inl KeyError)
      | GetReply (Some lightstates) \<Rightarrow>
          (case compare_lights cache lightstates (True, False) of
             Inl e \<Rightarrow> ([GetScene sid], Inl e)
           | Inr (is_current_scene, brightness_changed) \<Rightarrow>
               (case scene_lights cache (lights sc) of
                  Inl e \<Rightarrow> ([GetScene sid], Inl e)
                | Inr ls \<Rightarrow>
                    (case get_lightstate sensor ls True of
                       Inl e \<Rightarrow> ([GetScene sid], Inl e)
                     | Inr st \<Rightarrow>
                         (if put_raises b sid
                          then ([GetScene sid, PutScene sid st], Inl RequestError)
                          else if is_current_scene then
                            (case get_lightstate sensor ls (\<not> brightness_changed) of
                               Inl e \<Rightarrow> ([GetScene sid, PutScene sid st], Inl e)
                             | Inr st' \<Rightarrow>
                                 (case push_lights b cache st' of
                                    (cs, r) \<Rightarrow> ([GetScene sid, PutScene sid st] @ cs, r)))
                          else ([GetScene sid, PutScene sid st], Inr ()))))))"

text \<open>
  Lines 153 to 156: the loop over the scene cache. A scene of another name is
  skipped; an exception in the body of one scene ends the loop.
\<close>

fun process_scenes :: "circadian_values option \<Rightarrow> bridge \<Rightarrow> (light_id \<times> light) list \<Rightarrow>
    (scene_id \<times> scene) list \<Rightarrow> call list \<times> (error + unit)" where
  "process_scenes sensor b cache [] = ([], Inr ())"
| "process_scenes sensor b cache ((sid, sc) # rest) =
     (if name sc \<noteq> ''Circadian'' then process_scenes sensor b cache rest
      else
        (case process_scene sensor b cache sid sc of
           (cs, Inl e) \<Rightarrow> (cs, Inl e)
         | (cs, Inr u) \<Rightarrow>
             (case process_scenes sensor b cache rest of
                (cs', r) \<Rightarrow> (cs @ cs', r))))"

text \<open>
  Lines 144 to 188: \<^verbatim>\<open>update_bridge(self, bridge)\<close>. The result is the list
  of calls issued to the bridge, in order, and the returned value
  (\<^verbatim>\<open>False\<close> on line 147, \<^verbatim>\<open>None\<close> elsewhere) or the exception that
  left the coroutine.
\<close>

definition update_bridge :: "switch \<Rightarrow> circadian_values option \<Rightarrow> bridge \<Rightarrow>
    call list \<times> (error + bool option)" where
  "update_bridge self sensor b =
     (if sw_state self \<noteq> Some True then ([], Inr (Some False))
      else
        (case update_api (api_scenes b) (scenes_outcome b) of
           Inl e \<Rightarrow> ([RefreshScenes], Inl e)
         | Inr (scenes_ok, scenes) \<Rightarrow>
             (case update_api (api_lights b) (lights_outcome b) of
                Inl e \<Rightarrow> ([RefreshScenes, RefreshLights], Inl e)
              | Inr (available, cache) \<Rightarrow>
                  (if \<not> available then ([RefreshScenes, RefreshLights], Inr None)
                   else
                     (case process_scenes sensor b cache scenes of
                        (cs, Inl e) \<Rightarrow> (RefreshScenes # RefreshLights # cs, Inl e)
                      | (cs, Inr u) \<Rightarrow> (RefreshScenes # RefreshLights # cs, Inr None))))))"

section \<open>Poll cycle: \<^verbatim>\<open>async_update_info\<close>\<close>

text \<open>
  An entry of \<^verbatim>\<open>hass.data[hue.DOMAIN]\<close>: a \<^verbatim>\<open>HueBridge\<close> whose
  \<^verbatim>\<open>api\<close> is set (\<open>Some\<close>) or not, or an object of another class.
\<close>

datatype hue_entry = HueBridge "bridge option" | OtherEntry

text \<open>
  The host state the poll cycle reads: \<^verbatim>\<open>hass.data[hue.DOMAIN]\<close>
  (\<open>None\<close> when the key is absent) and the color source.
\<close>

record hass =
  hue_data :: "hue_entry list option"
  sensor_state :: "circadian_values option"

text \<open>Lines 27 to 35: \<^verbatim>\<open>get_bridges(hass)\<close>.\<close>

fun bridge_entries :: "hue_entry list \<Rightarrow> bridge list" where
  "bridge_entries [] = []"
| "bridge_entries (HueBridge (Some b) # rest) = b # bridge_entries rest"
| "bridge_entries (e # rest) = bridge_entries rest"

definition get_bridges :: "hass \<Rightarrow> error + bridge list" where
  "get_bridges h =
     (case hue_data h of
        None \<Rightarrow> Inl KeyError
      | Some entries \<Rightarrow> Inr (bridge_entries entries))"

text \<open>
  What one invocation of the poll cycle does besides changing the entity: it
  enumerates the bridges, it sleeps, and it runs \<^verbatim>\<open>update_bridge\<close> once
  for each bridge. The updates of several bridges run concurrently, so each
  carries its own list of calls.
\<close>

datatype event = GetBridges | Sleep nat | BridgeUpdate "call list"

text \<open>
  Lines 101 to 109, the body of the \<^verbatim>\<open>try\<close> block, run while the lock is
  held. \<^verbatim>\<open>asyncio.wait\<close> returns when every task is done and keeps an
  exception of a task inside that task.
\<close>

definition update_body :: "switch \<Rightarrow> bool \<Rightarrow> hass \<Rightarrow> event list \<times> (error + unit)" where
  "update_body self now h =
     (case get_bridges h of
        Inl e \<Rightarrow> ([GetBridges], Inl e)
      | Inr bridges \<Rightarrow>
          (if bridges = [] then
             (if now then ([GetBridges, Sleep 5], Inr ()) else ([GetBridges], Inr ()))
           else
             (GetBridges #
                map (\<lambda>b. BridgeUpdate (fst (update_bridge self (sensor_state h) b))) bridges,
              Inr ())))"

text \<open>
  Lines 95 to 111: \<^verbatim>\<open>async_update_info(self, now=None)\<close>. \<open>now\<close> is the
  truth value of the argument. \<^verbatim>\<open>self.lock.acquire(False)\<close> fails when the
  lock is held; otherwise the body runs with the lock held and the
  \<^verbatim>\<open>finally\<close> clause releases it, whatever the body ended with.
\<close>

definition async_update_info :: "switch \<Rightarrow> bool \<Rightarrow> hass \<Rightarrow>
    switch \<times> event list \<times> (error + unit)" where
  "async_update_info self now h =
     (if lock self then (self, [], Inr ())
      else
        (case update_body (self\<lparr>lock := True\<rparr>) now h of
           (evs, r) \<Rightarrow> (self\<lparr>lock := False\<rparr>, evs, r)))"

section \<open>Derived notions and a worked example\<close>




text \<open>
  A bridge with two lights, A (a color light) and B (a dimmable light), two scenes
  named \<^verbatim>\<open>Circadian\<close> over different lights and one scene of another name.
  Light A was dimmed by hand from 200 to 150, and its live y coordinate is far from
  the stored one. The scene refresh times out, the light refresh succeeds.
\<close>

definition ex_light_A :: light where
  "ex_light_A =
     \<lparr>lid = ''A'', state = \<lparr>on = Some True, bri = Some 150, xy = Some (0.5, 0.5)\<rparr>\<rparr>"

definition ex_light_B :: light where
  "ex_light_B = \<lparr>lid = ''B'', state = \<lparr>on = Some True, bri = Some 200, xy = None\<rparr>\<rparr>"

definition ex_cache :: "(light_id \<times> light) list" where
  "ex_cache = [(''A'', ex_light_A), (''B'', ex_light_B)]"

definition ex_stored :: "(light_id \<times> light_state) list" where
  "ex_stored =
     [(''A'', \<lparr>on = Some True, bri = Some 200, xy = Some (0.5, 0.2)\<rparr>),
      (''B'', \<lparr>on = Some True, bri = Some 200, xy = None\<rparr>)]"

definition ex_scene :: scene where
  "ex_scene = \<lparr>name = ''Circadian'', lights = [''A'', ''B'']\<rparr>"

definition ex_scenes :: "(scene_id \<times> scene) list" where
  "ex_scenes =
     [(''1'', ex_scene),
      (''2'', \<lparr>name = ''Evening'', lights = [''A'', ''B'']\<rparr>),
      (''3'', \<lparr>name = ''Circadian'', lights = [''B'']\<rparr>)]"

definition ex_sensor :: "circadian_values option" where
  "ex_sensor = Some \<lparr>attr_xy_color = Some (0.4, 0.4), percent_value = Some (- 50)\<rparr>"

definition ex_bridge :: bridge where
  "ex_bridge =
     \<lparr>api_scenes = ex_scenes, api_lights = [],
      scenes_outcome = TimeoutError, lights_outcome = Updated ex_cache,
      request_get = (\<lambda>sid. GetReply (Some ex_stored)),
      put_raises = (\<lambda>sid. False), set_state_raises = (\<lambda>i. False)\<rparr>"

definition ex_switch :: switch where
  "ex_switch = \<lparr>sw_name = ''Circadian Hue'', sw_state = Some True, lock = False\<rparr>"

definition ex_unset :: switch where
  "ex_unset = \<lparr>sw_name = ''Circadian Hue'', sw_state = None, lock = False\<rparr>"

definition ex_hass :: hass where
  "ex_hass =
     \<lparr>hue_data = Some [HueBridge (Some ex_bridge), OtherEntry, HueBridge None],
      sensor_state = ex_sensor\<rparr>"

section \<open>Auxiliary lemmas\<close>

lemmas ex_defs = ex_switch_def ex_bridge_def ex_scenes_def ex_scene_def ex_cache_def
  ex_stored_def ex_light_A_def ex_light_B_def ex_sensor_def

subsection \<open>The comparison loop\<close>

lemma compare_light_verdict:
  assumes "on c \<noteq> None" "on s \<noteq> None" "bri c \<noteq> None" "bri s \<noteq> None"
    "xy c = None \<or> xy s \<noteq> None"
  shows "compare_light c s (a, m) =
    Inr (a \<and> on_matches c s \<and> \<not> xy_diverges c s, m \<or> bri_diverges c s)"
  using assms
  by (auto simp: compare_light_def on_matches_def xy_diverges_def bri_diverges_def
      split: option.splits prod.splits)

lemma compare_lights_flags:
  "comparable cache ls \<Longrightarrow>
   compare_lights cache ls (a, m) =
     Inr (a \<and> scene_active cache ls, m \<or> manual_brightness cache ls)"
proof (induction ls arbitrary: a m)
  case Nil
  then show ?case by (simp add: scene_active_def manual_brightness_def)
next
  case (Cons p ls)
  obtain i st where p: "p = (i, st)" by (cases p)
  from Cons.prems p obtain l where l: "map_of cache i = Some l"
    and f: "on (state l) \<noteq> None" "on st \<noteq> None" "bri (state l) \<noteq> None" "bri st \<noteq> None"
      "xy (state l) = None \<or> xy st \<noteq> None"
    and rest: "comparable cache ls"
    by (auto simp: comparable_def split: option.splits)
  have live: "live_state cache i = state l" by (simp add: live_state_def l)
  show ?case
    using Cons.IH [OF rest] compare_light_verdict [OF f] l live
    by (auto simp: p scene_active_def manual_brightness_def)
qed

lemma compare_lights_raises:
  "\<not> comparable cache ls \<Longrightarrow> compare_lights cache ls flags = Inl KeyError"
proof (induction ls arbitrary: flags)
  case Nil
  then show ?case by (simp add: comparable_def)
next
  case (Cons p ls)
  obtain i st where p: "p = (i, st)" by (cases p)
  show ?case
  proof (cases "map_of cache i")
    case None
    then show ?thesis by (simp add: p)
  next
    case (Some l)
    show ?thesis
    proof (cases "compare_light (state l) st flags")
      case (Inl e)
      then have "e = KeyError"
        by (auto simp: compare_light_def Let_def split: option.splits prod.splits)
      with Inl Some show ?thesis by (simp add: p)
    next
      case (Inr fl)
      then have "on (state l) \<noteq> None \<and> on st \<noteq> None \<and>
          bri (state l) \<noteq> None \<and> bri st \<noteq> None \<and>
          (xy (state l) = None \<or> xy st \<noteq> None)"
        by (auto simp: compare_light_def Let_def split: option.splits prod.splits)
      with Cons.prems Some have "\<not> comparable cache ls"
        by (auto simp: comparable_def p)
      from Cons.IH [OF this] Inr Some show ?thesis by (simp add: p)
    qed
  qed
qed

subsection \<open>The computed patches\<close>







subsection \<open>The calls of one update\<close>










subsection \<open>The worked example, evaluated\<close>




lemma ex_trace:
  "update_bridge ex_switch ex_sensor ex_bridge =
   ([RefreshScenes, RefreshLights,
     GetScene ''1'',
     PutScene ''1''
       [(''A'', [(''on'', PBool True), (''xy'', PXY (0.4, 0.4)), (''bri'', PInt 127),
                 (''transitiontime'', PInt 20)]),
        (''B'', [(''on'', PBool True), (''bri'', PInt 127), (''transitiontime'', PInt 20)])],
     SetState ''A'' [(''on'', PBool True), (''xy'', PXY (0.4, 0.4)),
                     (''transitiontime'', PInt 20)],
     SetState ''B'' [(''on'', PBool True), (''transitiontime'', PInt 20)],
     GetScene ''3'',
     PutScene ''3''
       [(''B'', [(''on'', PBool True), (''bri'', PInt 127), (''transitiontime'', PInt 20)])],
     SetState ''B'' [(''on'', PBool True), (''transitiontime'', PInt 20)]],
    Inr None)"
  by (simp add: update_bridge_def update_api_def process_scene_def compare_light_def
      get_lightstate_def light_patch_def push_lights_def brightness_of_def py_int_def ex_defs)

section \<open>The claims\<close>

subsection \<open>Scene activity\<close>

text \<open>
  C1. The comparison loop of \<^verbatim>\<open>update_bridge\<close>, started with
  \<^verbatim>\<open>is_current_scene = True\<close> and \<^verbatim>\<open>brightness_changed = False\<close>,
  raises \<^verbatim>\<open>KeyError\<close> exactly on data that is not comparable; on comparable
  data it judges the scene active if and only if every light of the stored state
  has the stored on/off value and no light with a live xy field is further than
  0.02 from the stored x coordinate on either live coordinate, and it sets the
  brightness flag if and only if some light's brightness differs from the stored
  one by more than 5. The brightness test has no part in the activity verdict.
\<close>

theorem scene_judged_active:
  "compare_lights cache lightstates (True, False) =
     (if comparable cache lightstates
      then Inr (scene_active cache lightstates, manual_brightness cache lightstates)
      else Inl KeyError)"
  using compare_lights_flags [of cache lightstates True False]
    compare_lights_raises [of cache lightstates]
  by simp

theorem scene_judged_active_witness:
  "comparable ex_cache ex_stored \<and> scene_active ex_cache ex_stored \<and>
   manual_brightness ex_cache ex_stored \<and>
   compare_lights ex_cache ex_stored (True, False) = Inr (True, True)"
proof -
  have c: "comparable ex_cache ex_stored"
    by (simp add: comparable_def ex_defs del: not_None_eq)
  have a: "scene_active ex_cache ex_stored"
    by (simp add: scene_active_def live_state_def on_matches_def xy_diverges_def ex_defs)
  have m: "manual_brightness ex_cache ex_stored"
    by (simp add: manual_brightness_def live_state_def bri_diverges_def ex_defs)
  from c a m scene_judged_active [of ex_cache ex_stored] show ?thesis by simp
qed

subsection \<open>Brightness curve\<close>



subsection \<open>Scene rewrite and live push\<close>



subsection \<open>The on/off gate\<close>

text \<open>
  C4. When the entity's state is not ON (it is OFF or unset),
  \<^verbatim>\<open>update_bridge\<close> issues no call to the bridge at all and returns
  \<^verbatim>\<open>False\<close>.
\<close>

theorem off_no_calls:
  "sw_state self \<noteq> Some True \<Longrightarrow> update_bridge self sensor b = ([], Inr (Some False))"
  by (simp add: update_bridge_def)

theorem off_no_calls_witness:
  "update_bridge ex_unset ex_sensor ex_bridge = ([], Inr (Some False)) \<and>
   update_bridge (ex_switch\<lparr>sw_state := Some False\<rparr>) ex_sensor ex_bridge =
     ([], Inr (Some False))"
proof -
  have "sw_state ex_unset \<noteq> Some True"
    by (simp add: ex_unset_def)
  moreover have "sw_state (ex_switch\<lparr>sw_state := Some False\<rparr>) \<noteq> Some True"
    by simp
  ultimately show ?thesis
    using off_no_calls [of ex_unset ex_sensor ex_bridge]
      off_no_calls [of "ex_switch\<lparr>sw_state := Some False\<rparr>" ex_sensor ex_bridge]
    by blast
qed

subsection \<open>Fields of a computed patch\<close>



subsection \<open>Restoring the state\<close>

text \<open>
  C6, as amended. On an activation that finds the state unset, the state becomes ON
  if and only if a persisted state exists and its string is the "on" sentinel; it
  becomes OFF if and only if a persisted state exists with another string; and it
  stays unset if and only if no persisted state exists, in which case
  \<^verbatim>\<open>is_on\<close> returns \<^verbatim>\<open>None\<close>, which is not true. On an activation
  that finds the state set, the entity is left as it is.
\<close>

theorem restore_state:
  "(sw_state self = None \<longrightarrow>
      (sw_state (async_added_to_hass self last_state) = Some True \<longleftrightarrow>
         last_state = Some STATE_ON) \<and>
      (sw_state (async_added_to_hass self last_state) = Some False \<longleftrightarrow>
         (\<exists>s. last_state = Some s \<and> s \<noteq> STATE_ON)) \<and>
      (sw_state (async_added_to_hass self last_state) = None \<longleftrightarrow> last_state = None) \<and>
      (truthy (is_on (async_added_to_hass self last_state)) \<longleftrightarrow>
         last_state = Some STATE_ON)) \<and>
   (sw_state self \<noteq> None \<longrightarrow> async_added_to_hass self last_state = self)"
  by (auto simp: async_added_to_hass_def truthy_def is_on_def split: option.splits)

theorem restore_state_witness:
  "sw_state (async_added_to_hass ex_unset (Some ''on'')) = Some True \<and>
   sw_state (async_added_to_hass ex_unset (Some ''off'')) = Some False \<and>
   \<not> truthy (is_on (async_added_to_hass ex_unset None)) \<and>
   async_added_to_hass ex_switch None = ex_switch"
proof -
  have u: "sw_state ex_unset = None" and s: "sw_state ex_switch \<noteq> None"
    by (simp_all add: ex_unset_def ex_switch_def)
  from u s restore_state [of ex_unset "Some ''on''"] restore_state [of ex_unset "Some ''off''"]
    restore_state [of ex_unset None] restore_state [of ex_switch None]
  show ?thesis by (simp add: STATE_ON_def)
qed

text \<open>
  The claim as stated fails when no persisted state exists: the state is then
  \<^verbatim>\<open>None\<close> (unset) after the activation, not \<^verbatim>\<open>False\<close> (OFF), and
  \<^verbatim>\<open>is_on\<close> returns \<^verbatim>\<open>None\<close>.
\<close>

theorem restore_without_persisted_state:
  "sw_state (async_added_to_hass ex_unset None) = None \<and>
   sw_state (async_added_to_hass ex_unset None) \<noteq> Some False \<and>
   is_on (async_added_to_hass ex_unset None) = None"
  by (simp add: async_added_to_hass_def is_on_def ex_unset_def)

subsection \<open>Refresh failures\<close>

text \<open>
  C7. With the entity ON: when the light refresh times out or fails with a bridge
  error (and the scene refresh did not raise anything else), the update issues the
  two refreshes and nothing more, and returns; when the scene refresh times out or
  fails with a bridge error and the light refresh succeeds, the update goes on to
  process the scenes of the scene cache as it was before the refresh.
\<close>

theorem light_refresh_gates:
  assumes "sw_state self = Some True"
  shows "(scenes_outcome b \<noteq> OtherException \<and>
          (lights_outcome b = TimeoutError \<or> lights_outcome b = AiohueException) \<longrightarrow>
            update_bridge self sensor b = ([RefreshScenes, RefreshLights], Inr None)) \<and>
         ((scenes_outcome b = TimeoutError \<or> scenes_outcome b = AiohueException) \<and>
          lights_outcome b = Updated cache \<longrightarrow>
            fst (update_bridge self sensor b) =
              RefreshScenes # RefreshLights #
                fst (process_scenes sensor b cache (api_scenes b)))"
  using assms
  by (auto simp: update_bridge_def update_api_def
      split: update_outcome.splits prod.splits sum.splits)

theorem light_refresh_gates_witness:
  "update_bridge ex_switch ex_sensor (ex_bridge\<lparr>lights_outcome := AiohueException\<rparr>) =
     ([RefreshScenes, RefreshLights], Inr None) \<and>
   fst (update_bridge ex_switch ex_sensor ex_bridge) =
     RefreshScenes # RefreshLights #
       fst (process_scenes ex_sensor ex_bridge ex_cache ex_scenes) \<and>
   GetScene ''1'' \<in> set (fst (process_scenes ex_sensor ex_bridge ex_cache ex_scenes))"
proof -
  have on: "sw_state ex_switch = Some True"
    by (simp add: ex_switch_def)
  have b: "scenes_outcome ex_bridge = TimeoutError" "lights_outcome ex_bridge = Updated ex_cache"
    "api_scenes ex_bridge = ex_scenes"
    by (simp_all add: ex_bridge_def)
  have first: "update_bridge ex_switch ex_sensor (ex_bridge\<lparr>lights_outcome := AiohueException\<rparr>) =
     ([RefreshScenes, RefreshLights], Inr None)"
    using light_refresh_gates [OF on, of "ex_bridge\<lparr>lights_outcome := AiohueException\<rparr>"
        ex_sensor ex_cache] b
    by simp
  have second: "fst (update_bridge ex_switch ex_sensor ex_bridge) =
     RefreshScenes # RefreshLights #
       fst (process_scenes ex_sensor ex_bridge ex_cache ex_scenes)"
    using light_refresh_gates [OF on, of ex_bridge ex_sensor ex_cache] b
    by simp
  have "GetScene ''1'' \<in> set (fst (update_bridge ex_switch ex_sensor ex_bridge))"
    by (simp add: ex_trace)
  with second
  have "GetScene ''1'' \<in> set (fst (process_scenes ex_sensor ex_bridge ex_cache ex_scenes))"
    by simp
  with first second show ?thesis by simp
qed

subsection \<open>The guard of the poll cycle\<close>

text \<open>
  C8. Invoked while the lock is held, \<^verbatim>\<open>async_update_info\<close> returns at once:
  it does not enumerate the bridges, does not sleep, runs no bridge update, raises
  nothing, and leaves the entity as it was, so nothing of the skipped tick is kept.
\<close>

theorem locked_returns:
  "lock self \<Longrightarrow> async_update_info self now h = (self, [], Inr ())"
  by (simp add: async_update_info_def)

theorem locked_returns_witness:
  "async_update_info (ex_switch\<lparr>lock := True\<rparr>) True ex_hass =
     (ex_switch\<lparr>lock := True\<rparr>, [], Inr ())"
proof -
  have "lock (ex_switch\<lparr>lock := True\<rparr>)" by simp
  then show ?thesis by (rule locked_returns)
qed

subsection \<open>Which scenes are processed\<close>




subsection \<open>Release of the guard\<close>

text \<open>
  C10. An invocation of \<^verbatim>\<open>async_update_info\<close> that finds the lock free
  returns with the lock free again, whatever the body did (no bridges, with or
  without the pause; bridge updates; an exception out of the body), and an
  invocation that follows it runs its body.
\<close>

theorem lock_released:
  "\<not> lock self \<Longrightarrow>
     lock (fst (async_update_info self now h)) = False \<and>
     fst (snd (async_update_info (fst (async_update_info self now h)) now' h')) \<noteq> []"
  by (auto simp: async_update_info_def update_body_def split: prod.splits sum.splits)

theorem lock_released_witness:
  "lock (fst (async_update_info ex_switch True ex_hass)) = False \<and>
   lock (fst (async_update_info ex_switch True (ex_hass\<lparr>hue_data := None\<rparr>))) = False \<and>
   snd (snd (async_update_info ex_switch True (ex_hass\<lparr>hue_data := None\<rparr>))) = Inl KeyError \<and>
   lock (fst (async_update_info ex_switch True (ex_hass\<lparr>hue_data := Some []\<rparr>))) = False \<and>
   fst (snd (async_update_info ex_switch True (ex_hass\<lparr>hue_data := Some []\<rparr>))) =
     [GetBridges, Sleep 5]"
proof -
  have free: "\<not> lock ex_switch"
    by (simp add: ex_switch_def)
  have raised: "snd (snd (async_update_info ex_switch True (ex_hass\<lparr>hue_data := None\<rparr>))) =
      Inl KeyError"
    by (simp add: async_update_info_def update_body_def get_bridges_def ex_switch_def)
  have paused: "fst (snd (async_update_info ex_switch True (ex_hass\<lparr>hue_data := Some []\<rparr>))) =
     [GetBridges, Sleep 5]"
    by (simp add: async_update_info_def update_body_def get_bridges_def ex_switch_def)
  from raised paused lock_released [OF free, of True ex_hass]
    lock_released [OF free, of True "ex_hass\<lparr>hue_data := None\<rparr>"]
    lock_released [OF free, of True "ex_hass\<lparr>hue_data := Some []\<rparr>"]
  show ?thesis by simp
qed

end
